theory Spec2Isabelle
  imports Complex_Main "HOL-Library.AList"
begin

section \<open>JavaScript values\<close>

text \<open>
  A JavaScript number is an IEEE double. The code below only compares numbers with the
  constants \<open>0.0\<close> and \<open>1.0\<close>, and every finite double is a rational, so a finite number
  is held as the rational it denotes; \<open>NaN\<close> and the two infinities are kept apart
  because every comparison with \<open>NaN\<close> is false.
\<close>

datatype number = NaN | PosInfinity | NegInfinity | Finite rat

text \<open>\<open>n >= c\<close> and \<open>n < c\<close> for a finite constant \<open>c\<close>.\<close>

fun number_ge :: "number \<Rightarrow> rat \<Rightarrow> bool" where
  "number_ge NaN c = False"
| "number_ge PosInfinity c = True"
| "number_ge NegInfinity c = False"
| "number_ge (Finite q) c = (c \<le> q)"

fun number_lt :: "number \<Rightarrow> rat \<Rightarrow> bool" where
  "number_lt NaN c = False"
| "number_lt PosInfinity c = False"
| "number_lt NegInfinity c = True"
| "number_lt (Finite q) c = (q < c)"

text \<open>
  The values a request body or a configuration tree can hold (\<open>configValue: any\<close>): an
  object is the list of its own properties in the order \<open>Object.keys\<close> enumerates them.
  \<open>undefined\<close> is not a JSON value; a lookup that can give it returns \<open>json option\<close>.
\<close>

datatype json =
    JNull
  | JBool bool
  | JNumber number
  | JString string
  | JArray "json list"
  | JObject "(string \<times> json) list"

text \<open>The errors of \<open>fastify.httpErrors\<close> that the code raises, with their message.\<close>

datatype httpError =
    BadRequest string
  | InternalServerError string
  | Conflict string
  | NotFound string

text \<open>\<open>String.prototype.endsWith\<close>.\<close>

definition endsWith :: "string \<Rightarrow> string \<Rightarrow> bool" where
  "endsWith s searchString =
     (length searchString \<le> length s \<and> drop (length s - length searchString) s = searchString)"

section \<open>JavaScript strings, arrays and objects\<close>

text \<open>
  Strings are lists of bytes. \<open>toLowerCase\<close> and \<open>toUpperCase\<close> map the ASCII letters and
  leave every other byte as it is (JavaScript also maps letters outside ASCII).
\<close>

definition toLowerChar :: "char \<Rightarrow> char" where
  "toLowerChar c =
     (let n = (of_char c :: nat) in if 65 \<le> n \<and> n \<le> 90 then char_of (n + 32) else c)"

definition toUpperChar :: "char \<Rightarrow> char" where
  "toUpperChar c =
     (let n = (of_char c :: nat) in if 97 \<le> n \<and> n \<le> 122 then char_of (n - 32) else c)"

definition toLowerCase :: "string \<Rightarrow> string" where
  "toLowerCase s = map toLowerChar s"

definition toUpperCase :: "string \<Rightarrow> string" where
  "toUpperCase s = map toUpperChar s"

text \<open>
  \<open>s.split(c)\<close> for a separator of one character. The result is never empty: the empty
  string splits into one empty part.
\<close>

fun js_split :: "char \<Rightarrow> string \<Rightarrow> string list" where
  "js_split c [] = [[]]"
| "js_split c (x # xs) =
     (if x = c then [] # js_split c xs
      else (case js_split c xs of [] \<Rightarrow> [[x]] | p # ps \<Rightarrow> (x # p) # ps))"

text \<open>\<open>xs.join(sep)\<close>.\<close>

fun join :: "string \<Rightarrow> string list \<Rightarrow> string" where
  "join sep [] = []"
| "join sep [x] = x"
| "join sep (x # y # ys) = x @ sep @ join sep (y # ys)"

text \<open>Decimal digits: the text of an array index, and the digits of a numeral.\<close>

definition isDigit :: "char \<Rightarrow> bool" where
  "isDigit c = (48 \<le> (of_char c :: nat) \<and> (of_char c :: nat) \<le> 57)"

definition parseNat :: "string \<Rightarrow> nat" where
  "parseNat s = foldl (\<lambda>a c. 10 * a + ((of_char c :: nat) - 48)) 0 s"

fun showNat :: "nat \<Rightarrow> string" where
  "showNat n =
     (if n < 10 then [char_of (48 + n)] else showNat (n div 10) @ [char_of (48 + n mod 10)])"

declare showNat.simps [simp del]

text \<open>
  Truthiness (\<open>!x\<close>, \<open>x || y\<close>): \<open>null\<close>, \<open>false\<close>, \<open>0\<close>, \<open>NaN\<close> and the empty string are falsy,
  and so is \<open>undefined\<close>.
\<close>

fun isTruthy :: "json \<Rightarrow> bool" where
  "isTruthy JNull = False"
| "isTruthy (JBool b) = b"
| "isTruthy (JNumber n) = (n \<noteq> NaN \<and> n \<noteq> Finite 0)"
| "isTruthy (JString s) = (s \<noteq> [])"
| "isTruthy (JArray xs) = True"
| "isTruthy (JObject kvs) = True"

fun isTruthyOpt :: "json option \<Rightarrow> bool" where
  "isTruthyOpt None = False"
| "isTruthyOpt (Some v) = isTruthy v"

text \<open>
  \<open>Object.keys\<close>: the own enumerable property names; for an array or a string these are
  its indices. Both call sites test the value for truthiness first, so \<open>null\<close>, for which
  \<open>Object.keys\<close> throws, is never passed.
\<close>

fun objectKeys :: "json \<Rightarrow> string list" where
  "objectKeys (JObject kvs) = map fst kvs"
| "objectKeys (JArray xs) = map showNat [0..<length xs]"
| "objectKeys (JString s) = map showNat [0..<length s]"
| "objectKeys _ = []"

text \<open>
  \<open>v[key]\<close> on a value that is not \<open>null\<close>: an own property; \<open>None\<close> is \<open>undefined\<close>. Reading
  a property of \<open>null\<close> or \<open>undefined\<close> throws a TypeError, which each caller below tests
  for. Properties inherited from a prototype (\<open>constructor\<close>, \<open>toString\<close>) are not
  modelled.
\<close>

definition isArrayIndex :: "string \<Rightarrow> bool" where
  "isArrayIndex key = (showNat (parseNat key) = key)"

fun getProperty :: "json \<Rightarrow> string \<Rightarrow> json option" where
  "getProperty (JObject kvs) key = map_of kvs key"
| "getProperty (JArray xs) key =
     (if key = ''length'' then Some (JNumber (Finite (of_nat (length xs))))
      else if isArrayIndex key \<and> parseNat key < length xs then Some (xs ! parseNat key)
      else None)"
| "getProperty (JString s) key =
     (if key = ''length'' then Some (JNumber (Finite (of_nat (length s))))
      else if isArrayIndex key \<and> parseNat key < length s then Some (JString [s ! parseNat key])
      else None)"
| "getProperty _ key = None"

section \<open>String helpers of services/string-utils and services/base\<close>

text \<open>
  \<open>isFloatString\<close>, \<open>isFractionString\<close> (services/string-utils), \<open>fromFractionString\<close> and
  \<open>toFractionString\<close> (services/base) are imported by config/utils.ts and their source is
  not part of the files at hand; \<open>parseFloat\<close> is the JavaScript builtin, which rounds to a
  double. The functions of config/utils.ts take them as a parameter.
  \<open>fromFractionString\<close> returns \<open>number | null\<close> (\<open>None\<close> is \<open>null\<close>); \<open>toFractionString\<close>
  returns a string or \<open>null\<close>.
\<close>

record string_utils =
  isFloatString :: "string \<Rightarrow> bool"
  isFractionString :: "string \<Rightarrow> bool"
  parseFloat :: "string \<Rightarrow> number"
  fromFractionString :: "string \<Rightarrow> number option"
  toFractionString :: "json \<Rightarrow> json"

section \<open>Slippage validation (config/utils.ts, lines 12 to 61)\<close>

definition invalidAllowedSlippage :: string where
  "invalidAllowedSlippage =
     ''allowedSlippage should be a number between 0.0 and 1.0 or a string of a fraction.''"

text \<open>The argument type \<open>string | number\<close> of \<open>isAllowedPercentage\<close>.\<close>

datatype string_or_number = AString string | ANumber number

fun isAllowedPercentage :: "string_utils \<Rightarrow> string_or_number \<Rightarrow> bool" where
  "isAllowedPercentage h (AString val) =
     (if isFloatString h val
      then (let num = parseFloat h val in number_ge num 0 \<and> number_lt num 1)
      else (case fromFractionString h val of
              None \<Rightarrow> False
            | Some num \<Rightarrow> number_ge num 0 \<and> number_lt num 1))"
| "isAllowedPercentage h (ANumber val) = (number_ge val 0 \<and> number_lt val 1)"

text \<open>
  \<open>validateAllowedSlippage\<close> returns nothing or throws \<open>badRequest\<close>. The \<open>typeof\<close> tests
  are the case distinction on the value.
\<close>

definition validateAllowedSlippage :: "string_utils \<Rightarrow> string \<Rightarrow> json \<Rightarrow> httpError + unit" where
  "validateAllowedSlippage h configPath configValue =
     (if endsWith configPath ''allowedSlippage'' then
        (if \<not> (case configValue of
                   JNumber n \<Rightarrow> isAllowedPercentage h (ANumber n)
                 | JString s \<Rightarrow>
                     (isFractionString h s \<or> isFloatString h s) \<and> isAllowedPercentage h (AString s)
                 | _ \<Rightarrow> False)
         then Inl (BadRequest invalidAllowedSlippage)
         else Inr ())
      else Inr ())"

text \<open>The request body \<open>ConfigUpdateRequest\<close>; the function mutates it, the model returns it.\<close>

record ConfigUpdateRequest =
  configPath :: string
  configValue :: json

definition updateAllowedSlippageToFraction :: "string_utils \<Rightarrow> ConfigUpdateRequest \<Rightarrow> ConfigUpdateRequest" where
  "updateAllowedSlippageToFraction h body =
     (if endsWith (configPath body) ''allowedSlippage'' then
        (if (case configValue body of
               JNumber n \<Rightarrow> True
             | JString s \<Rightarrow> \<not> isFractionString h s
             | _ \<Rightarrow> False)
         then body\<lparr>configValue := toFractionString h (configValue body)\<rparr>
         else body)
      else body)"

section \<open>The configuration store (services/config-manager-v2)\<close>

text \<open>
  \<open>ConfigManagerV2\<close> is imported by config/utils.ts and its source is not part of the files
  at hand. The store is one configuration tree per namespace; a tree is a mapping from
  string keys to values.
\<close>

type_synonym configuration = "(string \<times> json) list"

type_synonym configStore = "(string \<times> configuration) list"

text \<open>
  Modelled from the spec: \<open>getNamespace(name)\<close> of \<open>ConfigManagerV2\<close>, which gives the
  namespace's tree or absent; \<open>getNamespace(name)?.configuration\<close> is this lookup.
\<close>

definition getNamespace :: "configStore \<Rightarrow> string \<Rightarrow> configuration option" where
  "getNamespace store name = map_of store name"

text \<open>
  Modelled from the spec: the Path Resolver of \<open>ConfigManagerV2\<close> in READ mode. It walks the
  segments and returns the terminal value, or absent if a segment is missing or an
  intermediate segment is not a container; arrays are leaves. An empty path resolves to
  nothing.
\<close>

fun resolve_read :: "configuration \<Rightarrow> string list \<Rightarrow> json option" where
  "resolve_read tree [] = None"
| "resolve_read tree [k] = map_of tree k"
| "resolve_read tree (k # ks) =
     (case map_of tree k of
        Some (JObject sub) \<Rightarrow> resolve_read sub ks
      | _ \<Rightarrow> None)"

text \<open>
  Modelled from the spec: \<open>get(path)\<close> of \<open>ConfigManagerV2\<close>. The path is dot-joined, its
  first segment names the namespace, the rest is resolved in that namespace's tree;
  absent (not an error) if the namespace or the path is unknown.
\<close>

definition ConfigManagerV2_get :: "configStore \<Rightarrow> string \<Rightarrow> json option" where
  "ConfigManagerV2_get store path =
     (case js_split CHR ''.'' path of
        [] \<Rightarrow> None
      | ns # segments \<Rightarrow>
          (case getNamespace store ns of
             None \<Rightarrow> None
           | Some tree \<Rightarrow> resolve_read tree segments))"

text \<open>The failures the spec names for path resolution.\<close>

datatype configError = InvalidPath | TypeMismatch

text \<open>
  Modelled from the spec: the texts of these errors are not given; the name of the
  failure stands for \<open>error.message\<close>.
\<close>

fun configErrorMessage :: "configError \<Rightarrow> string" where
  "configErrorMessage InvalidPath = ''InvalidPath''"
| "configErrorMessage TypeMismatch = ''TypeMismatch''"

text \<open>
  Modelled from the spec: the Path Resolver in WRITE mode, setting a value. Each missing
  intermediate segment becomes an empty object; an intermediate segment that holds a
  scalar or an array fails with \<open>TypeMismatch\<close>; the terminal segment is set. An empty
  path fails with \<open>InvalidPath\<close>.
\<close>

fun resolve_set :: "configuration \<Rightarrow> string list \<Rightarrow> json \<Rightarrow> configError + configuration" where
  "resolve_set tree [] v = Inl InvalidPath"
| "resolve_set tree [k] v = Inr (AList.update k v tree)"
| "resolve_set tree (k # ks) v =
     (case map_of tree k of
        None \<Rightarrow>
          (case resolve_set [] ks v of
             Inl e \<Rightarrow> Inl e
           | Inr sub' \<Rightarrow> Inr (AList.update k (JObject sub') tree))
      | Some (JObject sub) \<Rightarrow>
          (case resolve_set sub ks v of
             Inl e \<Rightarrow> Inl e
           | Inr sub' \<Rightarrow> Inr (AList.update k (JObject sub') tree))
      | Some _ \<Rightarrow> Inl TypeMismatch)"

text \<open>
  Modelled from the spec: the Path Resolver removing a value. Deleting a path that is
  absent (in the sense of READ) is a no-op, not an error.
\<close>

fun resolve_delete :: "configuration \<Rightarrow> string list \<Rightarrow> configError + configuration" where
  "resolve_delete tree [] = Inl InvalidPath"
| "resolve_delete tree [k] = Inr (AList.delete k tree)"
| "resolve_delete tree (k # ks) =
     (case map_of tree k of
        Some (JObject sub) \<Rightarrow>
          (case resolve_delete sub ks of
             Inl e \<Rightarrow> Inl e
           | Inr sub' \<Rightarrow> Inr (AList.update k (JObject sub') tree))
      | _ \<Rightarrow> Inr tree)"

text \<open>
  Modelled from the spec: \<open>set(path, value)\<close> and \<open>delete(path)\<close> of \<open>ConfigManagerV2\<close>. The
  namespace of the first segment is located, or created when \<open>set\<close> does not find it.
  The write to durable storage that follows is taken to succeed.
\<close>

definition ConfigManagerV2_set :: "configStore \<Rightarrow> string \<Rightarrow> json \<Rightarrow> configError + configStore" where
  "ConfigManagerV2_set store path v =
     (case js_split CHR ''.'' path of
        [] \<Rightarrow> Inl InvalidPath
      | ns # segments \<Rightarrow>
          (case resolve_set (case getNamespace store ns of None \<Rightarrow> [] | Some tree \<Rightarrow> tree)
                  segments v of
             Inl e \<Rightarrow> Inl e
           | Inr tree' \<Rightarrow> Inr (AList.update ns tree' store)))"

definition ConfigManagerV2_delete :: "configStore \<Rightarrow> string \<Rightarrow> configError + configStore" where
  "ConfigManagerV2_delete store path =
     (case js_split CHR ''.'' path of
        [] \<Rightarrow> Inl InvalidPath
      | ns # segments \<Rightarrow>
          (case getNamespace store ns of
             None \<Rightarrow> Inr store
           | Some tree \<Rightarrow>
               (case resolve_delete tree segments of
                  Inl e \<Rightarrow> Inl e
                | Inr tree' \<Rightarrow> Inr (AList.update ns tree' store))))"

section \<open>Default pools (config/utils.ts, lines 259 to 434)\<close>

text \<open>
  \<open>const [baseConnector, connectorType] = connector.split('/')\<close> and the two tests that
  follow it, the same in \<open>getDefaultPools\<close>, \<open>addDefaultPool\<close> and \<open>removeDefaultPool\<close>
  (lines 264 to 274, 328 to 338, 386 to 396). A missing second part is \<open>undefined\<close>, falsy
  like the empty string.
\<close>

definition parseConnector :: "string \<Rightarrow> httpError + string \<times> string" where
  "parseConnector connector =
     (case js_split CHR ''/'' connector of
        [] \<Rightarrow> Inl (BadRequest ''Connector name is required'')
      | baseConnector # rest \<Rightarrow>
          if baseConnector = [] then Inl (BadRequest ''Connector name is required'')
          else (case rest of
                  [] \<Rightarrow> Inl (BadRequest ''Connector type is required (e.g., amm, clmm)'')
                | connectorType # _ \<Rightarrow>
                    if connectorType = []
                    then Inl (BadRequest ''Connector type is required (e.g., amm, clmm)'')
                    else Inr (baseConnector, connectorType)))"

text \<open>
  \<open>let activeNetwork = 'mainnet-beta'; if (!networks[activeNetwork]) activeNetwork =
  activeNetworks[0]\<close>, where \<open>first\<close> is \<open>activeNetworks[0]\<close>.
\<close>

definition selectActiveNetwork :: "json \<Rightarrow> string \<Rightarrow> string" where
  "selectActiveNetwork networks first =
     (if isTruthyOpt (getProperty networks ''mainnet-beta'') then ''mainnet-beta'' else first)"

text \<open>
  \<open>getDefaultPools\<close> returns the pools or throws. Inside the \<open>try\<close>, reading
  \<open>[connectorType]\<close> of \<open>null\<close> or \<open>undefined\<close> is a TypeError, which the \<open>catch\<close> turns into
  \<open>internalServerError\<close>.
\<close>

definition getDefaultPools :: "configStore \<Rightarrow> string \<Rightarrow> httpError + json" where
  "getDefaultPools store connector =
     (case parseConnector connector of
        Inl e \<Rightarrow> Inl e
      | Inr (baseConnector, connectorType) \<Rightarrow>
          (case getNamespace store baseConnector of
             None \<Rightarrow> Inr (JObject [])
           | Some connectorConfig \<Rightarrow>
               (case map_of connectorConfig ''networks'' of
                  None \<Rightarrow> Inr (JObject [])
                | Some networks \<Rightarrow>
                    if \<not> isTruthy networks then Inr (JObject [])
                    else
                      (case objectKeys networks of
                         [] \<Rightarrow> Inr (JObject [])
                       | first # _ \<Rightarrow>
                           (case getProperty networks (selectActiveNetwork networks first) of
                              None \<Rightarrow> Inl (InternalServerError ''Failed to get default pools'')
                            | Some JNull \<Rightarrow> Inl (InternalServerError ''Failed to get default pools'')
                            | Some network \<Rightarrow>
                                (case getProperty network connectorType of
                                   None \<Rightarrow> Inr (JObject [])
                                 | Some pools \<Rightarrow>
                                     if isTruthy pools then Inr pools else Inr (JObject [])))))))"

text \<open>
  Lines 341 to 361 of \<open>addDefaultPool\<close> and 399 to 419 of \<open>removeDefaultPool\<close>: the active
  network of the connector, or the message of the \<open>Error\<close> thrown.
\<close>

definition resolveActiveNetwork :: "configStore \<Rightarrow> string \<Rightarrow> string + string" where
  "resolveActiveNetwork store baseConnector =
     (case getNamespace store baseConnector of
        None \<Rightarrow>
          Inl (''Connector '' @ baseConnector @ '' configuration not found or missing networks'')
      | Some connectorConfig \<Rightarrow>
          (case map_of connectorConfig ''networks'' of
             None \<Rightarrow>
               Inl (''Connector '' @ baseConnector @ '' configuration not found or missing networks'')
           | Some networks \<Rightarrow>
               if \<not> isTruthy networks
               then Inl (''Connector '' @ baseConnector @ '' configuration not found or missing networks'')
               else
                 (case objectKeys networks of
                    [] \<Rightarrow> Inl (''No networks configured for '' @ baseConnector)
                  | first # _ \<Rightarrow> Inr (selectActiveNetwork networks first))))"

text \<open>
  \<open>addDefaultPool\<close> and \<open>removeDefaultPool\<close> return nothing or throw; the store they leave
  is returned with the outcome. \<open>poolAddress\<close> is optional: \<open>None\<close> is an omitted argument.
\<close>

definition addDefaultPool ::
  "configStore \<Rightarrow> string \<Rightarrow> string \<Rightarrow> string \<Rightarrow> string option \<Rightarrow> (httpError + unit) \<times> configStore" where
  "addDefaultPool store connector baseToken quoteToken poolAddress =
     (let pairKey = baseToken @ ''-'' @ quoteToken in
      case poolAddress of
        None \<Rightarrow> (Inl (BadRequest ''Pool address is required for adding a default pool''), store)
      | Some addr \<Rightarrow>
          if addr = []
          then (Inl (BadRequest ''Pool address is required for adding a default pool''), store)
          else
            (case parseConnector connector of
               Inl e \<Rightarrow> (Inl e, store)
             | Inr (baseConnector, connectorType) \<Rightarrow>
                 (case resolveActiveNetwork store baseConnector of
                    Inl msg \<Rightarrow>
                      (Inl (InternalServerError (''Failed to add default pool: '' @ msg)), store)
                  | Inr activeNetwork \<Rightarrow>
                      (case ConfigManagerV2_set store
                              (baseConnector @ ''.networks.'' @ activeNetwork @ ''.'' @ connectorType
                                 @ ''.'' @ pairKey)
                              (JString addr) of
                         Inl e \<Rightarrow>
                           (Inl (InternalServerError
                                   (''Failed to add default pool: '' @ configErrorMessage e)), store)
                       | Inr store' \<Rightarrow> (Inr (), store')))))"

definition removeDefaultPool ::
  "configStore \<Rightarrow> string \<Rightarrow> string \<Rightarrow> string \<Rightarrow> (httpError + unit) \<times> configStore" where
  "removeDefaultPool store connector baseToken quoteToken =
     (let pairKey = baseToken @ ''-'' @ quoteToken in
      case parseConnector connector of
        Inl e \<Rightarrow> (Inl e, store)
      | Inr (baseConnector, connectorType) \<Rightarrow>
          (case resolveActiveNetwork store baseConnector of
             Inl msg \<Rightarrow>
               (Inl (InternalServerError (''Failed to remove default pool: '' @ msg)), store)
           | Inr activeNetwork \<Rightarrow>
               (case ConfigManagerV2_delete store
                       (baseConnector @ ''.networks.'' @ activeNetwork @ ''.'' @ connectorType
                          @ ''.'' @ pairKey) of
                  Inl e \<Rightarrow>
                    (Inl (InternalServerError
                            (''Failed to remove default pool: '' @ configErrorMessage e)), store)
                | Inr store' \<Rightarrow> (Inr (), store'))))"

section \<open>Token lists (config/utils.ts, lines 102 to 257)\<close>

text \<open>\<open>TokenInfo\<close> of chains/ethereum, as the code builds it in lines 163 to 169.\<close>

record TokenInfo =
  chainId :: number
  address :: string
  name :: string
  symbol :: string
  decimals :: number

text \<open>
  A token-list file holds the text of a JSON array of \<open>TokenInfo\<close> (the declared type of
  \<open>JSON.parse(fileContent)\<close>), held here as the list it parses to and is written from, or
  a text on which \<open>JSON.parse\<close> throws, held with the message of that error. The file
  system maps a path to the file there; reading an existing file and writing a file are
  taken to succeed.
\<close>

datatype tokenFile = TokenList "TokenInfo list" | Unparsable string

type_synonym fileSystem = "string \<Rightarrow> tokenFile option"

text \<open>
  The chain client \<open>Ethereum\<close> (chains/ethereum) is an external collaborator:
  \<open>getInstance(network)\<close> gives an instance, of which the code reads \<open>chainId\<close>, or rejects
  with an \<open>Error\<close> (\<open>Inl\<close> its message); \<open>loadTokens\<close> of the instance of a network, for a
  path, returns or rejects (\<open>Some\<close> the message). \<open>writeFileError\<close> is the message of the
  error \<open>fse.writeFile\<close> throws when the configured path is not a string.
\<close>

record ethereumClient =
  getInstance :: "string \<Rightarrow> string + number"
  loadTokens :: "string \<Rightarrow> string \<Rightarrow> string option"
  writeFileError :: "json \<Rightarrow> string"

definition configChainName :: string where
  "configChainName = ''ethereum''"

text \<open>\<open>Object.keys(ConfigManagerV2.getInstance().get(`${configChainName}.networks`) || {})\<close>.\<close>

definition availableNetworks :: "configStore \<Rightarrow> string list" where
  "availableNetworks store =
     objectKeys
       (case ConfigManagerV2_get store (configChainName @ ''.networks'') of
          None \<Rightarrow> JObject []
        | Some v \<Rightarrow> if isTruthy v then v else JObject [])"

definition unsupportedNetwork :: "string \<Rightarrow> string list \<Rightarrow> string" where
  "unsupportedNetwork network networks =
     ''Network '' @ [CHR 0x27] @ network @ [CHR 0x27]
       @ '' is not a supported Ethereum-based network. Supported networks are: ''
       @ join '', '' networks"

text \<open>
  \<open>addDefaultToken\<close> returns nothing or throws; the file system it leaves is returned with
  the outcome. An error thrown inside the \<open>try\<close> that carries a \<open>statusCode\<close> (the conflict)
  is thrown on as it is, any other becomes \<open>internalServerError\<close>.
\<close>

definition addDefaultToken ::
  "configStore \<Rightarrow> ethereumClient \<Rightarrow> fileSystem \<Rightarrow> string \<Rightarrow> string \<Rightarrow> string \<Rightarrow> string \<Rightarrow> string
     \<Rightarrow> number \<Rightarrow> (httpError + unit) \<times> fileSystem" where
  "addDefaultToken store eth fs chain network tokenName tokenSymbol tokenAddress tokenDecimals =
     (if network \<notin> set (availableNetworks store)
      then (Inl (BadRequest (unsupportedNetwork network (availableNetworks store))), fs)
      else
        let tokenListSourcePath =
              ConfigManagerV2_get store
                (configChainName @ ''.networks.'' @ network @ ''.tokenListSource'') in
        if \<not> isTruthyOpt tokenListSourcePath
        then (Inl (InternalServerError
                     (''tokenListSource not configured for network '' @ [CHR 0x27] @ network
                        @ [CHR 0x27] @ ''.'')), fs)
        else
          (case tokenListSourcePath of
             Some (JString path) \<Rightarrow>
               (case (case fs path of
                        None \<Rightarrow> Inr []
                      | Some (TokenList tokens) \<Rightarrow> Inr tokens
                      | Some (Unparsable msg) \<Rightarrow> Inl msg) of
                  Inl msg \<Rightarrow> (Inl (InternalServerError (''Failed to add token: '' @ msg)), fs)
                | Inr tokenList \<Rightarrow>
                    (case List.find
                            (\<lambda>t. toLowerCase (address t) = toLowerCase tokenAddress
                                 \<or> toUpperCase (symbol t) = toUpperCase tokenSymbol)
                            tokenList of
                       Some existingToken \<Rightarrow>
                         (Inl (Conflict
                                 (''Token with address '' @ tokenAddress @ '' or symbol ''
                                    @ tokenSymbol @ '' already exists.'')), fs)
                     | None \<Rightarrow>
                         (case getInstance eth network of
                            Inl msg \<Rightarrow>
                              (Inl (InternalServerError (''Failed to add token: '' @ msg)), fs)
                          | Inr cid \<Rightarrow>
                              let newToken =
                                    \<lparr>chainId = cid, address = tokenAddress, name = tokenName,
                                     symbol = tokenSymbol, decimals = tokenDecimals\<rparr>;
                                  fs' = fs(path \<mapsto> TokenList (tokenList @ [newToken]))
                              in (case loadTokens eth network path of
                                    Some msg \<Rightarrow>
                                      (Inl (InternalServerError
                                              (''Failed to add token: '' @ msg)), fs')
                                  | None \<Rightarrow> (Inr (), fs')))))
           | Some other \<Rightarrow>
               (case getInstance eth network of
                  Inl msg \<Rightarrow> (Inl (InternalServerError (''Failed to add token: '' @ msg)), fs)
                | Inr cid \<Rightarrow>
                    (Inl (InternalServerError
                            (''Failed to add token: '' @ writeFileError eth other)), fs))
           | None \<Rightarrow>
               (Inl (InternalServerError
                       (''tokenListSource not configured for network '' @ [CHR 0x27] @ network
                          @ [CHR 0x27] @ ''.'')), fs)))"

text \<open>
  \<open>removeDefaultToken\<close>. \<open>fse.pathExists\<close> of a value that is not a string is false. The
  file is written before \<open>Ethereum.getInstance\<close> and \<open>loadTokens\<close> are called.
\<close>

definition removeDefaultToken ::
  "configStore \<Rightarrow> ethereumClient \<Rightarrow> fileSystem \<Rightarrow> string \<Rightarrow> string \<Rightarrow> string
     \<Rightarrow> (httpError + unit) \<times> fileSystem" where
  "removeDefaultToken store eth fs chain network tokenToRemove =
     (if network \<notin> set (availableNetworks store)
      then (Inl (BadRequest (unsupportedNetwork network (availableNetworks store))), fs)
      else
        (case (case ConfigManagerV2_get store
                      (configChainName @ ''.networks.'' @ network @ ''.tokenListSource'') of
                 Some (JString path) \<Rightarrow>
                   (if path \<noteq> [] then (case fs path of None \<Rightarrow> None | Some file \<Rightarrow> Some (path, file))
                    else None)
               | _ \<Rightarrow> None) of
           None \<Rightarrow>
             (Inl (InternalServerError
                     (''tokenListSource not configured or found for network '' @ [CHR 0x27]
                        @ network @ [CHR 0x27] @ ''.'')), fs)
         | Some (path, Unparsable msg) \<Rightarrow>
             (Inl (InternalServerError (''Failed to remove token: '' @ msg)), fs)
         | Some (path, TokenList tokenList) \<Rightarrow>
             let updatedTokenList =
                   filter
                     (\<lambda>t. toLowerCase (address t) \<noteq> toLowerCase tokenToRemove
                          \<and> toLowerCase (symbol t) \<noteq> toLowerCase tokenToRemove)
                     tokenList
             in if length updatedTokenList = length tokenList
                then (Inl (NotFound (''Token '' @ tokenToRemove @ '' not found in the list.'')), fs)
                else
                  let fs' = fs(path \<mapsto> TokenList updatedTokenList)
                  in (case getInstance eth network of
                        Inl msg \<Rightarrow>
                          (Inl (InternalServerError (''Failed to remove token: '' @ msg)), fs')
                      | Inr cid \<Rightarrow>
                          (case loadTokens eth network path of
                             Some msg \<Rightarrow>
                               (Inl (InternalServerError
                                       (''Failed to remove token: '' @ msg)), fs')
                           | None \<Rightarrow> (Inr (), fs')))))"

section \<open>The string helpers, from the spec\<close>

text \<open>
  The spec's Validation Layer speaks of a numeric string, of a fraction string \<open>a/b\<close> with
  \<open>b \<noteq> 0\<close>, and of rewriting a number or a numeric string to a fraction string of the same
  value (\<open>0.005\<close> to \<open>1/200\<close>). The definitions below give these words a meaning, with
  unsigned decimal numerals; \<open>parseFloat_spec\<close> takes the exact value of the numeral and
  does not round to a double.
\<close>

definition isNaturalNumberString :: "string \<Rightarrow> bool" where
  "isNaturalNumberString s = (s \<noteq> [] \<and> list_all isDigit s)"

text \<open>
  Modelled from the spec: \<open>isFractionString\<close> of services/string-utils, the test for a
  fraction string \<open>a/b\<close>.
\<close>

definition isFractionString_spec :: "string \<Rightarrow> bool" where
  "isFractionString_spec s =
     (case js_split CHR ''/'' s of
        [a, b] \<Rightarrow> isNaturalNumberString a \<and> isNaturalNumberString b
      | _ \<Rightarrow> False)"

text \<open>
  Modelled from the spec: \<open>fromFractionString\<close> of services/base, the value of a fraction
  string \<open>a/b\<close> with \<open>b \<noteq> 0\<close>, and \<open>null\<close> for every other string.
\<close>

definition fromFractionString_spec :: "string \<Rightarrow> number option" where
  "fromFractionString_spec s =
     (case js_split CHR ''/'' s of
        [a, b] \<Rightarrow>
          if isNaturalNumberString a \<and> isNaturalNumberString b \<and> parseNat b \<noteq> 0
          then Some (Finite (of_nat (parseNat a) / of_nat (parseNat b)))
          else None
      | _ \<Rightarrow> None)"

text \<open>
  Modelled from the spec: \<open>isFloatString\<close> of services/string-utils, the test for a plain
  numeric string: digits, or digits, a point and digits.
\<close>

definition isFloatString_spec :: "string \<Rightarrow> bool" where
  "isFloatString_spec s =
     (case js_split CHR ''.'' s of
        [a] \<Rightarrow> isNaturalNumberString a
      | [a, b] \<Rightarrow> isNaturalNumberString a \<and> isNaturalNumberString b
      | _ \<Rightarrow> False)"

text \<open>Modelled from the spec: the parsed value of a numeric string.\<close>

definition parseFloat_spec :: "string \<Rightarrow> number" where
  "parseFloat_spec s =
     (case js_split CHR ''.'' s of
        [a] \<Rightarrow> if isNaturalNumberString a then Finite (of_nat (parseNat a)) else NaN
      | [a, b] \<Rightarrow>
          if isNaturalNumberString a \<and> isNaturalNumberString b
          then Finite (of_nat (parseNat a) + of_nat (parseNat b) / 10 ^ length b)
          else NaN
      | _ \<Rightarrow> NaN)"

text \<open>
  Modelled from the spec: \<open>toFractionString\<close> of services/base. A number or a numeric
  string is rewritten to the fraction string of its value in lowest terms, a fraction
  string is returned as it is, anything else gives \<open>null\<close>.
\<close>

definition fractionOfNumber :: "number \<Rightarrow> json" where
  "fractionOfNumber n =
     (case n of
        Finite q \<Rightarrow>
          (case quotient_of q of
             (a, b) \<Rightarrow>
               JString ((if a < 0 then ''-'' else []) @ showNat (nat \<bar>a\<bar>) @ ''/'' @ showNat (nat b)))
      | _ \<Rightarrow> JNull)"

definition toFractionString_spec :: "json \<Rightarrow> json" where
  "toFractionString_spec v =
     (case v of
        JNumber n \<Rightarrow> fractionOfNumber n
      | JString s \<Rightarrow>
          if isFloatString_spec s then fractionOfNumber (parseFloat_spec s)
          else if isFractionString_spec s then JString s
          else JNull
      | _ \<Rightarrow> JNull)"

definition spec_string_utils :: string_utils where
  "spec_string_utils =
     \<lparr>isFloatString = isFloatString_spec,
      isFractionString = isFractionString_spec,
      parseFloat = parseFloat_spec,
      fromFractionString = fromFractionString_spec,
      toFractionString = toFractionString_spec\<rparr>"

section \<open>Notions the properties are stated with\<close>

text \<open>
  A connector without configured networks: its namespace is absent, or has no \<open>networks\<close>
  entry, or \<open>Object.keys\<close> of that entry is empty.
\<close>

definition noConfiguredNetworks :: "configStore \<Rightarrow> string \<Rightarrow> bool" where
  "noConfiguredNetworks store baseConnector =
     (case getNamespace store baseConnector of
        None \<Rightarrow> True
      | Some connectorConfig \<Rightarrow>
          (case map_of connectorConfig ''networks'' of
             None \<Rightarrow> True
           | Some networks \<Rightarrow> objectKeys networks = []))"

text \<open>
  The configuration path of a default pool, as \<open>addDefaultPool\<close> and \<open>removeDefaultPool\<close>
  build it (lines 364 and 422).
\<close>

definition poolPairPath :: "string \<Rightarrow> string \<Rightarrow> string \<Rightarrow> string \<Rightarrow> string" where
  "poolPairPath baseConnector activeNetwork connectorType pairKey =
     baseConnector @ ''.networks.'' @ activeNetwork @ ''.'' @ connectorType @ ''.'' @ pairKey"

text \<open>A store with one default pool, to evaluate the pool operations on.\<close>

definition example_pools :: configStore where
  "example_pools =
     [(''uniswap'',
        [(''networks'',
           JObject [(''mainnet'',
                      JObject [(''clmm'', JObject [(''WETH-USDC'', JString ''0xOLD'')])])])])]"



text \<open>The configured path of the token list of a network, as both token operations read it.\<close>

definition tokenListSourceOf :: "configStore \<Rightarrow> string \<Rightarrow> json option" where
  "tokenListSourceOf store network =
     ConfigManagerV2_get store (configChainName @ ''.networks.'' @ network @ ''.tokenListSource'')"


text \<open>
  A configuration, a chain client and a token-list file to evaluate the operations on: the
  network \<open>base\<close> under \<open>ethereum\<close>, the network \<open>devnet\<close> under \<open>solana\<close>.
\<close>

definition example_store :: configStore where
  "example_store =
     [(''ethereum'',
        [(''networks'',
           JObject [(''base'', JObject [(''tokenListSource'', JString ''base.json'')])])]),
      (''solana'',
        [(''networks'',
           JObject [(''devnet'', JObject [(''tokenListSource'', JString ''devnet.json'')])])])]"

definition example_ethereum :: ethereumClient where
  "example_ethereum =
     \<lparr>getInstance = (\<lambda>network. Inr (Finite 8453)),
      loadTokens = (\<lambda>network path. None),
      writeFileError = (\<lambda>v. [])\<rparr>"

definition example_token :: TokenInfo where
  "example_token =
     \<lparr>chainId = Finite 8453, address = ''0xABC'', name = ''Tsunami'', symbol = ''NAMI'',
      decimals = Finite 18\<rparr>"

definition example_files :: fileSystem where
  "example_files = [''base.json'' \<mapsto> TokenList [example_token]]"

section \<open>What the spec says the validator accepts\<close>

text \<open>
  The spec's words for the values the percentage validator accepts: a plain number in
  \<open>[0.0, 1.0)\<close>, a numeric string whose parsed value is in \<open>[0.0, 1.0)\<close>, or a fraction
  string whose value is in \<open>[0, 1)\<close>. A numeric string is one \<open>isFloatString\<close> accepts and
  its parsed value is \<open>parseFloat\<close> of it; a fraction string is one \<open>isFractionString\<close>
  accepts and its value is what \<open>fromFractionString\<close> returns, \<open>null\<close> being no value.
\<close>

definition acceptedPercentage_spec :: "string_utils \<Rightarrow> json \<Rightarrow> bool" where
  "acceptedPercentage_spec h v =
     (case v of
        JNumber n \<Rightarrow> number_ge n 0 \<and> number_lt n 1
      | JString s \<Rightarrow>
          (isFloatString h s \<and> number_ge (parseFloat h s) 0 \<and> number_lt (parseFloat h s) 1)
          \<or> (isFractionString h s
              \<and> (case fromFractionString h s of
                    None \<Rightarrow> False
                  | Some q \<Rightarrow> number_ge q 0 \<and> number_lt q 1))
      | _ \<Rightarrow> False)"

section \<open>Properties of the slippage validation\<close>

text \<open>
  C1. On a path that ends in \<open>allowedSlippage\<close>, \<open>validateAllowedSlippage\<close> accepts a value
  exactly when it is a number in \<open>[0.0, 1.0)\<close>, a numeric string whose parsed value is in
  \<open>[0.0, 1.0)\<close>, or a fraction string whose value is in \<open>[0, 1)\<close>; every other value is
  rejected with the bad-request error \<open>invalidAllowedSlippage\<close>. The code tests for a
  numeric string first, so the statement is for helpers under which the string at hand
  is not both a numeric string and a fraction string.
\<close>

theorem validateAllowedSlippage_accepts_iff:
  assumes "endsWith path ''allowedSlippage''"
    and "\<forall>s. v = JString s \<longrightarrow> \<not> (isFloatString h s \<and> isFractionString h s)"
  shows "(validateAllowedSlippage h path v = Inr ()
            \<longleftrightarrow> acceptedPercentage_spec h v)
         \<and> (\<not> acceptedPercentage_spec h v
              \<longrightarrow> validateAllowedSlippage h path v
                    = Inl (BadRequest invalidAllowedSlippage))"
proof (cases v)
  case (JNumber n)
  with assms(1) show ?thesis
    by (simp add: validateAllowedSlippage_def acceptedPercentage_spec_def)
next
  case (JString s)
  with assms show ?thesis
    by (auto simp: validateAllowedSlippage_def acceptedPercentage_spec_def Let_def
             split: option.splits)
qed (use assms(1) in \<open>simp_all add: validateAllowedSlippage_def acceptedPercentage_spec_def\<close>)

theorem validateAllowedSlippage_accepts_iff_witness:
  "endsWith ''uniswap.allowedSlippage'' ''allowedSlippage''
   \<and> \<not> isFloatString spec_string_utils ''1/200''
   \<and> acceptedPercentage_spec spec_string_utils (JString ''1/200'')
   \<and> validateAllowedSlippage spec_string_utils ''uniswap.allowedSlippage'' (JString ''1/200'') = Inr ()
   \<and> \<not> acceptedPercentage_spec spec_string_utils (JString ''1/0'')
   \<and> validateAllowedSlippage spec_string_utils ''uniswap.allowedSlippage'' (JString ''1/0'')
       = Inl (BadRequest invalidAllowedSlippage)"
proof -
  have p: "endsWith ''uniswap.allowedSlippage'' ''allowedSlippage''"
    by (simp add: endsWith_def)
  have nf: "\<not> isFloatString spec_string_utils ''1/200''"
    by code_simp
  have nf0: "\<not> isFloatString spec_string_utils ''1/0''"
    by code_simp
  have acc: "acceptedPercentage_spec spec_string_utils (JString ''1/200'')"
    by code_simp
  have rej: "\<not> acceptedPercentage_spec spec_string_utils (JString ''1/0'')"
    by code_simp
  have d: "\<forall>s. JString ''1/200'' = JString s
             \<longrightarrow> \<not> (isFloatString spec_string_utils s \<and> isFractionString spec_string_utils s)"
    using nf by simp
  have d0: "\<forall>s. JString ''1/0'' = JString s
             \<longrightarrow> \<not> (isFloatString spec_string_utils s \<and> isFractionString spec_string_utils s)"
    using nf0 by simp
  from validateAllowedSlippage_accepts_iff [OF p d] validateAllowedSlippage_accepts_iff [OF p d0]
    p nf acc rej
  show ?thesis by blast
qed

text \<open>A path that does not end in \<^verbatim>\<open>allowedSlippage\<close> is outside both slippage
  rules: the validator accepts every value, and the normalizer returns the request as it is
  (lines 34 and 52).\<close>
theorem slippage_rules_by_suffix:
  assumes "\<not> endsWith path ''allowedSlippage''"
  shows "validateAllowedSlippage h path v = Inr ()
         \<and> updateAllowedSlippageToFraction h \<lparr>configPath = path, configValue = v\<rparr>
           = \<lparr>configPath = path, configValue = v\<rparr>"
  using assms by (simp add: validateAllowedSlippage_def updateAllowedSlippageToFraction_def)

text \<open>At the path \<^verbatim>\<open>server.port\<close> with the number 15888.\<close>
theorem slippage_rules_by_suffix_witness:
  "\<not> endsWith ''server.port'' ''allowedSlippage''
   \<and> validateAllowedSlippage spec_string_utils ''server.port'' (JNumber (Finite 15888)) = Inr ()
   \<and> updateAllowedSlippageToFraction spec_string_utils
        \<lparr>configPath = ''server.port'', configValue = JNumber (Finite 15888)\<rparr>
      = \<lparr>configPath = ''server.port'', configValue = JNumber (Finite 15888)\<rparr>"
proof -
  have n: "\<not> endsWith ''server.port'' ''allowedSlippage''"
    by (simp add: endsWith_def)
  from slippage_rules_by_suffix [OF n] n show ?thesis by simp
qed


section \<open>Splitting and case folding\<close>


lemma js_split_no_separator: "c \<notin> set s \<Longrightarrow> js_split c s = [s]"
  by (induction s) auto

lemma js_split_at_separator: "c \<notin> set a \<Longrightarrow> js_split c (a @ c # b) = a # js_split c b"
  by (induction a) auto




lemma parseConnector_name_type:
  assumes "baseConnector \<noteq> []" "connectorType \<noteq> []"
    and "CHR ''/'' \<notin> set baseConnector" "CHR ''/'' \<notin> set connectorType"
  shows "parseConnector (baseConnector @ ''/'' @ connectorType) = Inr (baseConnector, connectorType)"
  using assms by (simp add: parseConnector_def js_split_at_separator js_split_no_separator)






section \<open>The slippage normalizer\<close>






















section \<open>Properties of the default pools\<close>

lemma parseConnector_missing_part:
  assumes "\<nexists>b t rest. js_split CHR ''/'' connector = b # t # rest \<and> b \<noteq> [] \<and> t \<noteq> []"
  shows "\<exists>msg. parseConnector connector = Inl (BadRequest msg)"
  using assms by (auto simp: parseConnector_def split: list.splits)

lemma resolveActiveNetwork_no_networks:
  assumes "noConfiguredNetworks store baseConnector"
  shows "\<exists>msg. resolveActiveNetwork store baseConnector = Inl msg"
  using assms
  by (auto simp: noConfiguredNetworks_def resolveActiveNetwork_def split: option.splits)

text \<open>
  C5. For a connector \<open>name/type\<close> whose namespace is absent, has no \<open>networks\<close> entry or
  has zero configured networks, \<open>getDefaultPools\<close> returns the empty mapping and raises
  no error.
\<close>

theorem getDefaultPools_empty_without_networks:
  assumes "baseConnector \<noteq> []" "connectorType \<noteq> []"
    and "CHR ''/'' \<notin> set baseConnector" "CHR ''/'' \<notin> set connectorType"
    and "noConfiguredNetworks store baseConnector"
  shows "getDefaultPools store (baseConnector @ ''/'' @ connectorType) = Inr (JObject [])"
proof -
  have pc: "parseConnector (baseConnector @ ''/'' @ connectorType)
              = Inr (baseConnector, connectorType)"
    using assms(1-4) by (rule parseConnector_name_type)
  show ?thesis
    unfolding getDefaultPools_def pc using assms(5)
    by (auto simp: noConfiguredNetworks_def split: option.splits)
qed

theorem getDefaultPools_empty_without_networks_witness:
  "getDefaultPools [] ''uniswap/clmm'' = Inr (JObject [])
   \<and> getDefaultPools [(''uniswap'', [(''allowedSlippage'', JString ''1/100'')])] ''uniswap/clmm''
       = Inr (JObject [])
   \<and> getDefaultPools [(''uniswap'', [(''networks'', JObject [])])] ''uniswap/clmm''
       = Inr (JObject [])"
proof -
  have n: "''uniswap'' \<noteq> []" "''clmm'' \<noteq> []"
    "CHR ''/'' \<notin> set ''uniswap''" "CHR ''/'' \<notin> set ''clmm''"
    by simp_all
  have a: "getDefaultPools [] (''uniswap'' @ ''/'' @ ''clmm'') = Inr (JObject [])"
    by (rule getDefaultPools_empty_without_networks [OF n]) (simp add: noConfiguredNetworks_def getNamespace_def)
  have b: "getDefaultPools [(''uniswap'', [(''allowedSlippage'', JString ''1/100'')])]
             (''uniswap'' @ ''/'' @ ''clmm'') = Inr (JObject [])"
    by (rule getDefaultPools_empty_without_networks [OF n]) (simp add: noConfiguredNetworks_def getNamespace_def)
  have c: "getDefaultPools [(''uniswap'', [(''networks'', JObject [])])]
             (''uniswap'' @ ''/'' @ ''clmm'') = Inr (JObject [])"
    by (rule getDefaultPools_empty_without_networks [OF n]) (simp add: noConfiguredNetworks_def getNamespace_def)
  from a b c show ?thesis by simp
qed

text \<open>
  C4, as the code has it. \<open>addDefaultPool\<close> fails with a bad-request error when
  \<open>poolAddress\<close> is omitted or empty, and when the name or the type is missing from the
  parts of \<open>connector.split('/')\<close>. When the address and both parts are given and the
  connector has no configured networks, the \<open>Error\<close> thrown inside the \<open>try\<close> is turned
  into an internal-server error by the \<open>catch\<close>. The store is left as it was.
\<close>

theorem addDefaultPool_failures:
  "(poolAddress = None \<or> poolAddress = Some []
      \<longrightarrow> addDefaultPool store connector baseToken quoteToken poolAddress
            = (Inl (BadRequest ''Pool address is required for adding a default pool''), store))
   \<and> ((\<nexists>b t rest. js_split CHR ''/'' connector = b # t # rest \<and> b \<noteq> [] \<and> t \<noteq> [])
      \<longrightarrow> (\<exists>msg. addDefaultPool store connector baseToken quoteToken poolAddress
                   = (Inl (BadRequest msg), store)))
   \<and> (poolAddress = Some addr \<and> addr \<noteq> []
        \<and> baseConnector \<noteq> [] \<and> connectorType \<noteq> []
        \<and> CHR ''/'' \<notin> set baseConnector \<and> CHR ''/'' \<notin> set connectorType
        \<and> noConfiguredNetworks store baseConnector
      \<longrightarrow> (\<exists>msg. addDefaultPool store (baseConnector @ ''/'' @ connectorType)
                     baseToken quoteToken poolAddress
                   = (Inl (InternalServerError (''Failed to add default pool: '' @ msg)), store)))"
proof (intro conjI impI)
  assume "poolAddress = None \<or> poolAddress = Some []"
  then show "addDefaultPool store connector baseToken quoteToken poolAddress
             = (Inl (BadRequest ''Pool address is required for adding a default pool''), store)"
    by (auto simp: addDefaultPool_def)
next
  assume "\<nexists>b t rest. js_split CHR ''/'' connector = b # t # rest \<and> b \<noteq> [] \<and> t \<noteq> []"
  then obtain msg where "parseConnector connector = Inl (BadRequest msg)"
    using parseConnector_missing_part by blast
  then show "\<exists>msg. addDefaultPool store connector baseToken quoteToken poolAddress
                   = (Inl (BadRequest msg), store)"
    by (cases poolAddress) (auto simp: addDefaultPool_def)
next
  assume a: "poolAddress = Some addr \<and> addr \<noteq> []
        \<and> baseConnector \<noteq> [] \<and> connectorType \<noteq> []
        \<and> CHR ''/'' \<notin> set baseConnector \<and> CHR ''/'' \<notin> set connectorType
        \<and> noConfiguredNetworks store baseConnector"
  then have pc: "parseConnector (baseConnector @ ''/'' @ connectorType)
                   = Inr (baseConnector, connectorType)"
    by (intro parseConnector_name_type) simp_all
  from a obtain msg where "resolveActiveNetwork store baseConnector = Inl msg"
    using resolveActiveNetwork_no_networks by blast
  with a show "\<exists>msg. addDefaultPool store (baseConnector @ ''/'' @ connectorType)
                     baseToken quoteToken poolAddress
                   = (Inl (InternalServerError (''Failed to add default pool: '' @ msg)), store)"
    unfolding addDefaultPool_def pc by simp
qed

theorem addDefaultPool_failures_witness:
  "addDefaultPool [] ''uniswap/clmm'' ''WETH'' ''USDC'' None
     = (Inl (BadRequest ''Pool address is required for adding a default pool''), [])
   \<and> (\<exists>msg. addDefaultPool [] ''uniswap'' ''WETH'' ''USDC'' (Some ''0xPOOL'')
              = (Inl (BadRequest msg), []))
   \<and> (\<exists>msg. addDefaultPool [] ''uniswap/clmm'' ''WETH'' ''USDC'' (Some ''0xPOOL'')
              = (Inl (InternalServerError (''Failed to add default pool: '' @ msg)), []))"
proof -
  note t = addDefaultPool_failures [where poolAddress = None and store = "[]"
             and connector = "''uniswap/clmm''" and baseToken = "''WETH''" and quoteToken = "''USDC''"]
  note u = addDefaultPool_failures [where poolAddress = "Some ''0xPOOL''" and store = "[]"
             and connector = "''uniswap''" and baseToken = "''WETH''" and quoteToken = "''USDC''"]
  note v = addDefaultPool_failures [where poolAddress = "Some ''0xPOOL''" and store = "[]"
             and addr = "''0xPOOL''" and baseConnector = "''uniswap''" and connectorType = "''clmm''"
             and baseToken = "''WETH''" and quoteToken = "''USDC''"]
  have s: "js_split CHR ''/'' ''uniswap'' = [''uniswap'']" by simp
  have n: "noConfiguredNetworks [] ''uniswap''"
    by (simp add: noConfiguredNetworks_def getNamespace_def)
  from t have a: "addDefaultPool [] ''uniswap/clmm'' ''WETH'' ''USDC'' None
     = (Inl (BadRequest ''Pool address is required for adding a default pool''), [])"
    by simp
  from u s have b: "\<exists>msg. addDefaultPool [] ''uniswap'' ''WETH'' ''USDC'' (Some ''0xPOOL'')
              = (Inl (BadRequest msg), [])"
    by simp
  from v n have c: "\<exists>msg. addDefaultPool [] ''uniswap/clmm'' ''WETH'' ''USDC'' (Some ''0xPOOL'')
              = (Inl (InternalServerError (''Failed to add default pool: '' @ msg)), [])"
    by simp
  from a b c show ?thesis by blast
qed

text \<open>
  The claim C4 expects a not-found error here: with a namespace whose \<open>networks\<close> is empty
  the error is the internal-server error, and no not-found error.
\<close>

theorem addDefaultPool_no_networks_counterexample:
  "noConfiguredNetworks [(''uniswap'', [(''networks'', JObject [])])] ''uniswap''
   \<and> addDefaultPool [(''uniswap'', [(''networks'', JObject [])])] ''uniswap/clmm'' ''WETH'' ''USDC''
         (Some ''0xPOOL'')
       = (Inl (InternalServerError
                 ''Failed to add default pool: No networks configured for uniswap''),
          [(''uniswap'', [(''networks'', JObject [])])])
   \<and> (\<forall>msg. fst (addDefaultPool [(''uniswap'', [(''networks'', JObject [])])] ''uniswap/clmm''
                    ''WETH'' ''USDC'' (Some ''0xPOOL''))
             \<noteq> Inl (NotFound msg))"
proof -
  have r: "addDefaultPool [(''uniswap'', [(''networks'', JObject [])])] ''uniswap/clmm'' ''WETH''
             ''USDC'' (Some ''0xPOOL'')
           = (Inl (InternalServerError
                     ''Failed to add default pool: No networks configured for uniswap''),
              [(''uniswap'', [(''networks'', JObject [])])])"
    by code_simp
  have n: "noConfiguredNetworks [(''uniswap'', [(''networks'', JObject [])])] ''uniswap''"
    by code_simp
  show ?thesis unfolding r using n by simp
qed

text \<open>Listing and removing default pools parse the connector as adding does: when the text
  before or after the first two slash-separated parts is missing or empty, both fail with a
  bad request, and removing leaves the store as it was (lines 264 to 274 and 386 to 396).\<close>
theorem pools_connector_part_missing:
  assumes "\<nexists>b t rest. js_split CHR ''/'' connector = b # t # rest \<and> b \<noteq> [] \<and> t \<noteq> []"
  shows "(\<exists>msg. getDefaultPools store connector = Inl (BadRequest msg))
         \<and> (\<exists>msg. removeDefaultPool store connector baseToken quoteToken
                    = (Inl (BadRequest msg), store))"
proof -
  from parseConnector_missing_part [OF assms] obtain msg where
    "parseConnector connector = Inl (BadRequest msg)" by blast
  then show ?thesis
    by (simp add: getDefaultPools_def removeDefaultPool_def)
qed

text \<open>On the example store, with no slash, with an empty name and with an empty type.\<close>
theorem pools_connector_part_missing_witness:
  "getDefaultPools example_pools ''uniswap'' = Inl (BadRequest ''Connector type is required (e.g., amm, clmm)'')
   \<and> getDefaultPools example_pools ''/clmm'' = Inl (BadRequest ''Connector name is required'')
   \<and> (\<exists>msg. getDefaultPools example_pools ''uniswap/'' = Inl (BadRequest msg))
   \<and> (\<exists>msg. removeDefaultPool example_pools ''uniswap/'' ''WETH'' ''USDC''
              = (Inl (BadRequest msg), example_pools))"
proof -
  have a: "getDefaultPools example_pools ''uniswap''
           = Inl (BadRequest ''Connector type is required (e.g., amm, clmm)'')"
    by code_simp
  have b: "getDefaultPools example_pools ''/clmm'' = Inl (BadRequest ''Connector name is required'')"
    by code_simp
  have s: "js_split CHR ''/'' ''uniswap/'' = [''uniswap'', []]" by simp
  have "\<nexists>b t rest. js_split CHR ''/'' ''uniswap/'' = b # t # rest \<and> b \<noteq> [] \<and> t \<noteq> []"
    unfolding s by simp
  from pools_connector_part_missing [OF this, of example_pools "''WETH''" "''USDC''"] a b
  show ?thesis by blast
qed


section \<open>Adding a default pool, then removing it\<close>

text \<open>The path of a pool splits into its five segments when none of them holds a point.\<close>

lemma poolPairPath_segments:
  assumes "CHR ''.'' \<notin> set baseConnector" "CHR ''.'' \<notin> set activeNetwork"
    "CHR ''.'' \<notin> set connectorType" "CHR ''.'' \<notin> set pairKey"
  shows "js_split CHR ''.'' (poolPairPath baseConnector activeNetwork connectorType pairKey)
         = [baseConnector, ''networks'', activeNetwork, connectorType, pairKey]"
proof -
  let ?rest = "activeNetwork @ CHR ''.'' # connectorType @ CHR ''.'' # pairKey"
  have n: "CHR ''.'' \<notin> set ''networks''" by simp
  have "js_split CHR ''.'' ?rest = [activeNetwork, connectorType, pairKey]"
    using assms(2-4) by (simp add: js_split_at_separator js_split_no_separator)
  then have "js_split CHR ''.'' (''networks'' @ CHR ''.'' # ?rest)
             = [''networks'', activeNetwork, connectorType, pairKey]"
    using js_split_at_separator [OF n, of ?rest] by simp
  then have "js_split CHR ''.'' (baseConnector @ CHR ''.'' # ''networks'' @ CHR ''.'' # ?rest)
             = [baseConnector, ''networks'', activeNetwork, connectorType, pairKey]"
    using js_split_at_separator [OF assms(1), of "''networks'' @ CHR ''.'' # ?rest"] by simp
  then show ?thesis
    by (simp add: poolPairPath_def)
qed


lemma resolveActiveNetwork_InrD:
  assumes "resolveActiveNetwork store baseConnector = Inr activeNetwork"
  obtains tree networks first rest where
    "getNamespace store baseConnector = Some tree"
    "map_of tree ''networks'' = Some networks"
    "isTruthy networks"
    "objectKeys networks = first # rest"
    "activeNetwork = selectActiveNetwork networks first"
  using assms
  by (auto simp: resolveActiveNetwork_def split: option.splits if_splits list.splits)

lemma activeNetwork_is_key:
  assumes "objectKeys (JObject nkvs) = first # rest"
    and "activeNetwork = selectActiveNetwork (JObject nkvs) first"
  shows "\<exists>v. map_of nkvs activeNetwork = Some v"
proof (cases "isTruthyOpt (map_of nkvs ''mainnet-beta'')")
  case True
  then have "map_of nkvs ''mainnet-beta'' \<noteq> None"
    by (cases "map_of nkvs ''mainnet-beta''") auto
  with True assms(2) show ?thesis by (auto simp: selectActiveNetwork_def)
next
  case False
  from assms(1) have "first \<in> fst ` set nkvs"
    by (cases nkvs) auto
  then have "map_of nkvs first \<noteq> None" by (simp add: map_of_eq_None_iff)
  with False assms(2) show ?thesis by (auto simp: selectActiveNetwork_def)
qed

lemma activeNetwork_after_update:
  assumes "objectKeys (JObject nkvs) = first # rest"
    and "activeNetwork = selectActiveNetwork (JObject nkvs) first"
  shows "objectKeys (JObject (AList.update activeNetwork (JObject akvs) nkvs)) = first # rest"
    and "selectActiveNetwork (JObject (AList.update activeNetwork (JObject akvs) nkvs)) first
         = activeNetwork"
proof -
  from assms(1) have eq: "map fst nkvs = first # rest" by simp
  from activeNetwork_is_key [OF assms] have "activeNetwork \<in> fst ` set nkvs"
    using map_of_eq_None_iff [of nkvs activeNetwork] by auto
  then have "activeNetwork \<in> set (map fst nkvs)" by simp
  then have "map fst (AList.update activeNetwork (JObject akvs) nkvs) = map fst nkvs"
    by (simp only: AList.update_keys if_True)
  then show "objectKeys (JObject (AList.update activeNetwork (JObject akvs) nkvs))
             = first # rest"
    using eq by simp
  show "selectActiveNetwork (JObject (AList.update activeNetwork (JObject akvs) nkvs)) first
         = activeNetwork"
    using assms(2)
    by (auto simp: selectActiveNetwork_def AList.update_conv')
qed


lemma addDefaultPool_path:
  "addDefaultPool store connector baseToken quoteToken poolAddress =
     (case poolAddress of
        None \<Rightarrow> (Inl (BadRequest ''Pool address is required for adding a default pool''), store)
      | Some addr \<Rightarrow>
          if addr = []
          then (Inl (BadRequest ''Pool address is required for adding a default pool''), store)
          else
            (case parseConnector connector of
               Inl e \<Rightarrow> (Inl e, store)
             | Inr (baseConnector, connectorType) \<Rightarrow>
                 (case resolveActiveNetwork store baseConnector of
                    Inl msg \<Rightarrow>
                      (Inl (InternalServerError (''Failed to add default pool: '' @ msg)), store)
                  | Inr activeNetwork \<Rightarrow>
                      (case ConfigManagerV2_set store
                              (poolPairPath baseConnector activeNetwork connectorType
                                 (baseToken @ ''-'' @ quoteToken))
                              (JString addr) of
                         Inl e \<Rightarrow>
                           (Inl (InternalServerError
                                   (''Failed to add default pool: '' @ configErrorMessage e)), store)
                       | Inr store' \<Rightarrow> (Inr (), store')))))"
  unfolding addDefaultPool_def poolPairPath_def Let_def by (rule refl)



lemma getDefaultPools_at:
  assumes "parseConnector connector = Inr (baseConnector, connectorType)"
    and "getNamespace store baseConnector = Some tree"
    and "map_of tree ''networks'' = Some (JObject nkvs)"
    and "objectKeys (JObject nkvs) = first # rest"
    and "selectActiveNetwork (JObject nkvs) first = activeNetwork"
    and "map_of nkvs activeNetwork = Some (JObject akvs)"
  shows "getDefaultPools store connector
         = (case map_of akvs connectorType of
              None \<Rightarrow> Inr (JObject [])
            | Some pools \<Rightarrow> if isTruthy pools then Inr pools else Inr (JObject []))"
  using assms(4)
  by (simp add: getDefaultPools_def assms(1,2,3,5,6))






















text \<open>Writing a value four levels down, below two objects that exist, rebuilds exactly the
  objects on the way.\<close>
lemma set_pair_shape:
  assumes "map_of tree n = Some (JObject nkvs)"
    and "map_of nkvs an = Some (JObject akvs)"
    and "resolve_set tree [n, an, ty, pk] v = Inr tree'"
  shows "\<exists>pools. map_of pools pk = Some v
           \<and> tree' = AList.update n
                 (JObject (AList.update an (JObject (AList.update ty (JObject pools) akvs)) nkvs))
                 tree"
proof (cases "map_of akvs ty")
  case None
  with assms have "tree' = AList.update n
      (JObject (AList.update an (JObject (AList.update ty (JObject [(pk, v)]) akvs)) nkvs)) tree"
    by auto
  moreover have "map_of [(pk, v)] pk = Some v" by simp
  ultimately show ?thesis by blast
next
  case (Some x)
  with assms obtain old where x: "x = JObject old"
    by (cases x) auto
  with Some assms have "tree' = AList.update n
      (JObject (AList.update an (JObject (AList.update ty (JObject (AList.update pk v old)) akvs))
                  nkvs)) tree"
    by auto
  moreover have "map_of (AList.update pk v old) pk = Some v"
    by (simp add: AList.update_conv')
  ultimately show ?thesis by blast
qed

text \<open>The pools of a connector, right after a pair was added to it, hold the pair under the key
  base-quote with the address given, provided no segment of the path contains a dot.\<close>
theorem addDefaultPool_then_getDefaultPools:
  assumes pc: "parseConnector connector = Inr (baseConnector, connectorType)"
    and dots: "CHR ''.'' \<notin> set baseConnector" "CHR ''.'' \<notin> set connectorType"
      "CHR ''.'' \<notin> set baseToken" "CHR ''.'' \<notin> set quoteToken"
    and net: "\<forall>activeNetwork. resolveActiveNetwork store baseConnector = Inr activeNetwork
                \<longrightarrow> CHR ''.'' \<notin> set activeNetwork"
    and ok: "fst (addDefaultPool store connector baseToken quoteToken poolAddress) = Inr ()"
  shows "\<exists>addr pools. poolAddress = Some addr
           \<and> getDefaultPools (snd (addDefaultPool store connector baseToken quoteToken poolAddress))
                connector = Inr (JObject pools)
           \<and> map_of pools (baseToken @ ''-'' @ quoteToken) = Some (JString addr)"
proof -
  define pairKey where "pairKey = baseToken @ ''-'' @ quoteToken"
  have dpk: "CHR ''.'' \<notin> set pairKey"
    using dots(3,4) by (simp add: pairKey_def)
  let ?added = "addDefaultPool store connector baseToken quoteToken poolAddress"
  from ok obtain addr activeNetwork store' where
    pa: "poolAddress = Some addr"
    and ra: "resolveActiveNetwork store baseConnector = Inr activeNetwork"
    and st: "ConfigManagerV2_set store
               (poolPairPath baseConnector activeNetwork connectorType pairKey) (JString addr)
             = Inr store'"
    and ad: "snd ?added = store'"
    unfolding addDefaultPool_path pairKey_def [symmetric]
    by (auto simp: pc split: option.splits if_splits sum.splits)
  from net ra have da: "CHR ''.'' \<notin> set activeNetwork" by blast
  note seg = poolPairPath_segments [OF dots(1) da dots(2) dpk]
  from ra obtain tree networks first rest where
    t: "getNamespace store baseConnector = Some tree"
    and n: "map_of tree ''networks'' = Some networks"
    and k: "objectKeys networks = first # rest"
    and a: "activeNetwork = selectActiveNetwork networks first"
    by (rule resolveActiveNetwork_InrD)
  from st obtain tree' where
    rs: "resolve_set tree [''networks'', activeNetwork, connectorType, pairKey] (JString addr)
         = Inr tree'"
    and s': "store' = AList.update baseConnector tree' store"
    by (auto simp: ConfigManagerV2_set_def seg t split: sum.splits)
  from rs n obtain nkvs where nk: "networks = JObject nkvs"
    by (cases networks) auto
  from activeNetwork_is_key [OF k [unfolded nk] a [unfolded nk]] obtain netv where
    "map_of nkvs activeNetwork = Some netv" by blast
  with rs n nk obtain akvs where ak: "map_of nkvs activeNetwork = Some (JObject akvs)"
    by (cases netv) auto
  from set_pair_shape [OF n [unfolded nk] ak rs] obtain pools where
    p: "map_of pools pairKey = Some (JString addr)"
    and t': "tree' = AList.update ''networks''
               (JObject (AList.update activeNetwork
                           (JObject (AList.update connectorType (JObject pools) akvs)) nkvs)) tree"
    by blast
  let ?akvs' = "AList.update connectorType (JObject pools) akvs"
  note upd = activeNetwork_after_update [OF k [unfolded nk] a [unfolded nk]]
  have g': "getNamespace store' baseConnector = Some tree'"
    by (simp add: s' getNamespace_def AList.update_conv')
  have n': "map_of tree' ''networks''
            = Some (JObject (AList.update activeNetwork (JObject ?akvs') nkvs))"
    by (simp add: t' AList.update_conv')
  have ak': "map_of (AList.update activeNetwork (JObject ?akvs') nkvs) activeNetwork
             = Some (JObject ?akvs')"
    by (simp add: AList.update_conv')
  have "getDefaultPools store' connector = Inr (JObject pools)"
    using getDefaultPools_at [OF pc g' n' upd(1) upd(2) ak']
    by (simp add: AList.update_conv')
  with pa p ad show ?thesis by (simp add: pairKey_def)
qed

text \<open>On the example store, adding WETH-USDC to \<^verbatim>\<open>uniswap/clmm\<close>.\<close>
theorem addDefaultPool_then_getDefaultPools_witness:
  "fst (addDefaultPool example_pools ''uniswap/clmm'' ''WETH'' ''USDC'' (Some ''0xPOOL'')) = Inr ()
   \<and> getDefaultPools (snd (addDefaultPool example_pools ''uniswap/clmm'' ''WETH'' ''USDC''
                             (Some ''0xPOOL''))) ''uniswap/clmm''
     = Inr (JObject [(''WETH-USDC'', JString ''0xPOOL'')])
   \<and> (\<exists>addr pools. Some ''0xPOOL'' = Some addr
         \<and> getDefaultPools (snd (addDefaultPool example_pools ''uniswap/clmm'' ''WETH'' ''USDC''
                                   (Some ''0xPOOL''))) ''uniswap/clmm'' = Inr (JObject pools)
         \<and> map_of pools (''WETH'' @ ''-'' @ ''USDC'') = Some (JString addr))"
proof -
  have pc: "parseConnector ''uniswap/clmm'' = Inr (''uniswap'', ''clmm'')"
    by code_simp
  have ra: "resolveActiveNetwork example_pools ''uniswap'' = Inr ''mainnet''"
    by code_simp
  have ok: "fst (addDefaultPool example_pools ''uniswap/clmm'' ''WETH'' ''USDC'' (Some ''0xPOOL''))
            = Inr ()"
    by code_simp
  have v: "getDefaultPools (snd (addDefaultPool example_pools ''uniswap/clmm'' ''WETH'' ''USDC''
                                   (Some ''0xPOOL''))) ''uniswap/clmm''
           = Inr (JObject [(''WETH-USDC'', JString ''0xPOOL'')])"
    by code_simp
  have dots: "CHR ''.'' \<notin> set ''uniswap''" "CHR ''.'' \<notin> set ''clmm''"
    "CHR ''.'' \<notin> set ''WETH''" "CHR ''.'' \<notin> set ''USDC''"
    by simp_all
  have net: "\<forall>activeNetwork. resolveActiveNetwork example_pools ''uniswap'' = Inr activeNetwork
               \<longrightarrow> CHR ''.'' \<notin> set activeNetwork"
    unfolding ra by simp
  from addDefaultPool_then_getDefaultPools [OF pc dots net ok] ok v show ?thesis by blast
qed


section \<open>Properties of the token lists\<close>

lemma get_networks_ethereum:
  "ConfigManagerV2_get store (configChainName @ ''.networks'')
     = (case getNamespace store ''ethereum'' of
          None \<Rightarrow> None
        | Some tree \<Rightarrow> map_of tree ''networks'')"
  by (simp add: ConfigManagerV2_get_def configChainName_def split: option.splits)

lemma get_tokenListSource_ethereum:
  "ConfigManagerV2_get store (configChainName @ ''.networks.'' @ network @ ''.tokenListSource'')
     = (case getNamespace store ''ethereum'' of
          None \<Rightarrow> None
        | Some tree \<Rightarrow>
            resolve_read tree (''networks'' # js_split CHR ''.'' (network @ ''.tokenListSource'')))"
  by (simp add: ConfigManagerV2_get_def configChainName_def split: option.splits)








lemma availableNetworks_ethereum:
  "availableNetworks store
     = (case getNamespace store ''ethereum'' of
          None \<Rightarrow> []
        | Some tree \<Rightarrow>
            (case map_of tree ''networks'' of
               None \<Rightarrow> []
             | Some v \<Rightarrow> if isTruthy v then objectKeys v else []))"
  unfolding availableNetworks_def get_networks_ethereum
  by (simp split: option.splits)

text \<open>
  C8, as the code has it. \<open>addDefaultToken\<close> fails with the bad-request error that lists
  the valid networks exactly when \<open>network\<close> is not among the networks configured under
  the \<open>ethereum\<close> namespace, whatever \<open>chain\<close> is.
\<close>

theorem addDefaultToken_validates_ethereum_network:
  "(network \<notin> set (availableNetworks store)
      \<longrightarrow> addDefaultToken store eth fs chain network tokenName tokenSymbol tokenAddress tokenDecimals
            = (Inl (BadRequest
                      (''Network '' @ [CHR 0x27] @ network @ [CHR 0x27]
                         @ '' is not a supported Ethereum-based network. Supported networks are: ''
                         @ join '', '' (availableNetworks store))), fs))
   \<and> (network \<in> set (availableNetworks store)
      \<longrightarrow> (\<forall>msg. fst (addDefaultToken store eth fs chain network tokenName tokenSymbol tokenAddress
                          tokenDecimals) \<noteq> Inl (BadRequest msg)))
   \<and> availableNetworks store
       = (case getNamespace store ''ethereum'' of
            None \<Rightarrow> []
          | Some tree \<Rightarrow>
              (case map_of tree ''networks'' of
                 None \<Rightarrow> []
               | Some v \<Rightarrow> if isTruthy v then objectKeys v else []))"
proof (intro conjI impI allI)
  assume "network \<notin> set (availableNetworks store)"
  then show "addDefaultToken store eth fs chain network tokenName tokenSymbol tokenAddress
               tokenDecimals
             = (Inl (BadRequest
                      (''Network '' @ [CHR 0x27] @ network @ [CHR 0x27]
                         @ '' is not a supported Ethereum-based network. Supported networks are: ''
                         @ join '', '' (availableNetworks store))), fs)"
    by (simp add: addDefaultToken_def unsupportedNetwork_def)
next
  fix msg
  assume "network \<in> set (availableNetworks store)"
  then show "fst (addDefaultToken store eth fs chain network tokenName tokenSymbol tokenAddress
                    tokenDecimals) \<noteq> Inl (BadRequest msg)"
    unfolding addDefaultToken_def Let_def
    by (auto split: if_splits option.splits json.splits tokenFile.splits sum.splits)
next
  show "availableNetworks store
       = (case getNamespace store ''ethereum'' of
            None \<Rightarrow> []
          | Some tree \<Rightarrow>
              (case map_of tree ''networks'' of
                 None \<Rightarrow> []
               | Some v \<Rightarrow> if isTruthy v then objectKeys v else []))"
    by (rule availableNetworks_ethereum)
qed

theorem addDefaultToken_validates_ethereum_network_witness:
  "''devnet'' \<notin> set (availableNetworks example_store)
   \<and> addDefaultToken example_store example_ethereum example_files ''ethereum'' ''devnet''
        ''Tsunami'' ''NAMI'' ''0xABC'' (Finite 18)
      = (Inl (BadRequest
                (''Network '' @ [CHR 0x27] @ ''devnet'' @ [CHR 0x27]
                   @ '' is not a supported Ethereum-based network. Supported networks are: base'')),
         example_files)
   \<and> ''base'' \<in> set (availableNetworks example_store)
   \<and> (\<forall>msg. fst (addDefaultToken example_store example_ethereum example_files ''solana'' ''base''
                    ''Tsunami'' ''NAMI'' ''0xABC'' (Finite 18)) \<noteq> Inl (BadRequest msg))"
proof -
  have a: "availableNetworks example_store = [''base'']" by code_simp
  note t = addDefaultToken_validates_ethereum_network [where store = example_store
             and eth = example_ethereum and fs = example_files and tokenName = "''Tsunami''"
             and tokenSymbol = "''NAMI''" and tokenAddress = "''0xABC''"
             and tokenDecimals = "Finite 18"]
  have n1: "''devnet'' \<notin> set (availableNetworks example_store)"
    and n2: "''base'' \<in> set (availableNetworks example_store)"
    unfolding a by simp_all
  from t [where network = "''devnet''" and chain = "''ethereum''", THEN conjunct1] n1
  have r1: "addDefaultToken example_store example_ethereum example_files ''ethereum'' ''devnet''
        ''Tsunami'' ''NAMI'' ''0xABC'' (Finite 18)
      = (Inl (BadRequest
                (''Network '' @ [CHR 0x27] @ ''devnet'' @ [CHR 0x27]
                   @ '' is not a supported Ethereum-based network. Supported networks are: base'')),
         example_files)"
    unfolding a by simp
  from t [where network = "''base''" and chain = "''solana''", THEN conjunct2, THEN conjunct1] n2
  have r2: "\<forall>msg. fst (addDefaultToken example_store example_ethereum example_files ''solana''
                    ''base'' ''Tsunami'' ''NAMI'' ''0xABC'' (Finite 18)) \<noteq> Inl (BadRequest msg)"
    by blast
  from n1 r1 n2 r2 show ?thesis by blast
qed

text \<open>
  The claim C8 expects the networks of the namespace of \<open>chain\<close>: for the chain \<open>solana\<close>
  its configured network \<open>devnet\<close> is refused, and \<open>base\<close>, which it does not configure,
  is accepted.
\<close>

theorem addDefaultToken_chain_namespace_counterexample:
  "ConfigManagerV2_get example_store (''solana'' @ ''.networks'')
     = Some (JObject [(''devnet'', JObject [(''tokenListSource'', JString ''devnet.json'')])])
   \<and> addDefaultToken example_store example_ethereum example_files ''solana'' ''devnet''
        ''Tsunami'' ''NAMI'' ''0xABC'' (Finite 18)
      = (Inl (BadRequest
                (''Network '' @ [CHR 0x27] @ ''devnet'' @ [CHR 0x27]
                   @ '' is not a supported Ethereum-based network. Supported networks are: base'')),
         example_files)
   \<and> ConfigManagerV2_get example_store (''solana'' @ ''.networks.base'') = None
   \<and> fst (addDefaultToken example_store example_ethereum (\<lambda>path. None) ''solana'' ''base''
            ''Tsunami'' ''NAMI'' ''0xABC'' (Finite 18))
      = Inr ()"
proof -
  have a: "availableNetworks example_store = [''base'']" by code_simp
  have g: "ConfigManagerV2_get example_store (''solana'' @ ''.networks'')
     = Some (JObject [(''devnet'', JObject [(''tokenListSource'', JString ''devnet.json'')])])"
    by code_simp
  have h: "ConfigManagerV2_get example_store (''solana'' @ ''.networks.base'') = None"
    by code_simp
  have p: "ConfigManagerV2_get example_store
             (configChainName @ ''.networks.'' @ ''base'' @ ''.tokenListSource'')
           = Some (JString ''base.json'')" by code_simp
  have r1: "addDefaultToken example_store example_ethereum example_files ''solana'' ''devnet''
        ''Tsunami'' ''NAMI'' ''0xABC'' (Finite 18)
      = (Inl (BadRequest
                (''Network '' @ [CHR 0x27] @ ''devnet'' @ [CHR 0x27]
                   @ '' is not a supported Ethereum-based network. Supported networks are: base'')),
         example_files)"
    unfolding addDefaultToken_def a by (simp add: unsupportedNetwork_def)
  have r2: "fst (addDefaultToken example_store example_ethereum (\<lambda>path. None) ''solana'' ''base''
            ''Tsunami'' ''NAMI'' ''0xABC'' (Finite 18)) = Inr ()"
    unfolding addDefaultToken_def a p Let_def by (simp add: example_ethereum_def)
  from g h r1 r2 show ?thesis by simp
qed

text \<open>
  C10. Two calls of \<open>addDefaultToken\<close>, or of \<open>removeDefaultToken\<close>, that differ in the
  chain string give the same outcome and the same file system; so do two calls on stores
  that agree on the \<open>ethereum\<close> namespace, the only one either operation reads.
\<close>

theorem token_operations_independent_of_chain:
  assumes "getNamespace store ''ethereum'' = getNamespace store' ''ethereum''"
  shows "addDefaultToken store eth fs chain network tokenName tokenSymbol tokenAddress tokenDecimals
         = addDefaultToken store' eth fs chain' network tokenName tokenSymbol tokenAddress
             tokenDecimals
         \<and> removeDefaultToken store eth fs chain network tokenToRemove
           = removeDefaultToken store' eth fs chain' network tokenToRemove"
  unfolding addDefaultToken_def removeDefaultToken_def availableNetworks_ethereum
    get_tokenListSource_ethereum assms
  by simp

theorem token_operations_independent_of_chain_witness:
  "getNamespace example_store ''ethereum''
     = getNamespace [(''ethereum'', [(''networks'',
          JObject [(''base'', JObject [(''tokenListSource'', JString ''base.json'')])])])] ''ethereum''
   \<and> addDefaultToken example_store example_ethereum example_files ''ethereum'' ''base''
        ''Tsunami'' ''NAMI'' ''0xABC'' (Finite 18)
     = addDefaultToken [(''ethereum'', [(''networks'',
          JObject [(''base'', JObject [(''tokenListSource'', JString ''base.json'')])])])]
        example_ethereum example_files ''solana'' ''base''
        ''Tsunami'' ''NAMI'' ''0xABC'' (Finite 18)
   \<and> removeDefaultToken example_store example_ethereum example_files ''ethereum'' ''base'' ''NAMI''
     = removeDefaultToken [(''ethereum'', [(''networks'',
          JObject [(''base'', JObject [(''tokenListSource'', JString ''base.json'')])])])]
        example_ethereum example_files ''solana'' ''base'' ''NAMI''"
proof -
  have e: "getNamespace example_store ''ethereum''
     = getNamespace [(''ethereum'', [(''networks'',
          JObject [(''base'', JObject [(''tokenListSource'', JString ''base.json'')])])])] ''ethereum''"
    by (simp add: getNamespace_def example_store_def)
  from token_operations_independent_of_chain [OF e] e show ?thesis by blast
qed

text \<open>A failed attempt to add a token leaves every token file as it was, with one exception: the
  failure of the reload that follows the write (lines 173 to 179), where the file is already
  written.\<close>
theorem addDefaultToken_failure_keeps_file:
  assumes "fst (addDefaultToken store eth fs chain network tokenName tokenSymbol tokenAddress
                  tokenDecimals) = Inl e"
  shows "snd (addDefaultToken store eth fs chain network tokenName tokenSymbol tokenAddress
                tokenDecimals) = fs
         \<or> (\<exists>path msg. tokenListSourceOf store network = Some (JString path)
               \<and> loadTokens eth network path = Some msg
               \<and> e = InternalServerError (''Failed to add token: '' @ msg))"
  using assms
  unfolding addDefaultToken_def tokenListSourceOf_def Let_def
  by (auto split: if_splits option.splits json.splits tokenFile.splits sum.splits)

text \<open>On the example store, for the network \<^verbatim>\<open>devnet\<close>, which is not configured.\<close>
theorem addDefaultToken_failure_keeps_file_witness:
  "fst (addDefaultToken example_store example_ethereum example_files ''ethereum'' ''devnet''
          ''Other'' ''OTH'' ''0xDEF'' (Finite 6))
     = Inl (BadRequest (unsupportedNetwork ''devnet'' [''base'']))
   \<and> snd (addDefaultToken example_store example_ethereum example_files ''ethereum'' ''devnet''
            ''Other'' ''OTH'' ''0xDEF'' (Finite 6)) = example_files"
proof -
  have a: "availableNetworks example_store = [''base'']" by code_simp
  have lt: "loadTokens example_ethereum ''devnet'' path = None" for path
    by (simp add: example_ethereum_def)
  have r: "fst (addDefaultToken example_store example_ethereum example_files ''ethereum'' ''devnet''
                  ''Other'' ''OTH'' ''0xDEF'' (Finite 6))
           = Inl (BadRequest (unsupportedNetwork ''devnet'' [''base'']))"
    unfolding addDefaultToken_def a by simp
  from addDefaultToken_failure_keeps_file [OF r] lt r show ?thesis by auto
qed

text \<open>The token Tsunami (NAMI, 0xABC, 18 decimals) added to the network \<^verbatim>\<open>base\<close> whose
  token file does not exist yet: the file then holds exactly this token.\<close>
theorem addDefaultToken_on_empty_list:
  "addDefaultToken example_store example_ethereum (\<lambda>path. None) ''ethereum'' ''base''
     ''Tsunami'' ''NAMI'' ''0xABC'' (Finite 18)
   = (Inr (), [''base.json'' \<mapsto> TokenList [example_token]])"
proof -
  have n: "''base'' \<in> set (availableNetworks example_store)" by code_simp
  have p: "ConfigManagerV2_get example_store
             (configChainName @ ''.networks.'' @ ''base'' @ ''.tokenListSource'')
           = Some (JString ''base.json'')" by code_simp
  show ?thesis
    unfolding addDefaultToken_def p Let_def
    using n by (simp add: example_ethereum_def example_token_def)
qed

end
